theory Spec2Isabelle
  imports Main "HOL-Library.Word"
begin

unbundle bit_operations_syntax

section \<open>Errors\<close>

text \<open>
  \<^verbatim>\<open>sim_error.py\<close>: the one simulator-scoped exception, carrying its message.
  \<open>ValueError\<close> is the host-runtime error of \<^verbatim>\<open>time.sleep\<close> on a negative length.
  \<open>TypeError\<close> stands for the host-runtime error Python raises when an operator that
  needs an address is handed the accumulator sentinel \<open>None\<close>
  (\<^verbatim>\<open>None & 0xFFFF\<close>); the opcode dictionary never pairs such an operator with the
  accumulator resolver.
\<close>

datatype error = SimError string | TypeError | ValueError

text \<open>
  \<^verbatim>\<open>time.sleep(delay)\<close>. Both delays of the program are a whole number of microseconds
  divided by 1000000 (\<^verbatim>\<open>2/1000000\<close>, \<^verbatim>\<open>0\<close>, \<^verbatim>\<open>0.005\<close>, or what the \<^verbatim>\<open>CPU\<close> and
  \<^verbatim>\<open>BUS\<close> commands of \<^verbatim>\<open>sim.py\<close> compute from \<^verbatim>\<open>int(tokens[1])\<close>, which may be
  negative), so a delay is kept as that number of microseconds. Sleeping changes no state;
  a negative length raises.
\<close>

definition sleep :: "int \<Rightarrow> error + unit" where
  "sleep microseconds = (if microseconds < 0 then Inl ValueError else Inr ())"

section \<open>Formatting integers the way the f-strings do\<close>

text \<open>
  \<^verbatim>\<open>f'{n:04X}'\<close> and \<^verbatim>\<open>f'{n:02X}'\<close>: upper-case hexadecimal digits, padded
  with zeros on the left up to the width; a negative number keeps its sign in front and
  the sign counts towards the width.
\<close>

definition hex_digit :: "nat \<Rightarrow> char" where
  "hex_digit n = ''0123456789ABCDEF'' ! (n mod 16)"

fun hex_digits :: "nat \<Rightarrow> string" where
  "hex_digits n = (if n < 16 then [hex_digit n] else hex_digits (n div 16) @ [hex_digit (n mod 16)])"

declare hex_digits.simps [simp del]

definition zero_pad :: "nat \<Rightarrow> string \<Rightarrow> string" where
  "zero_pad w ds = replicate (w - length ds) CHR ''0'' @ ds"

definition format_hex :: "nat \<Rightarrow> int \<Rightarrow> string" where
  "format_hex w n =
     (if n < 0 then CHR ''-'' # zero_pad (w - 1) (hex_digits (nat (- n)))
      else zero_pad w (hex_digits (nat n)))"

text \<open>Reading a string of hexadecimal digits back, used to state what a message names.\<close>

definition hex_digit_value :: "char \<Rightarrow> nat" where
  "hex_digit_value ch =
     (let k = of_char ch :: nat in
      if 48 \<le> k \<and> k \<le> 57 then k - 48 else if 65 \<le> k \<and> k \<le> 70 then k - 55 else 0)"

definition hex_value :: "string \<Rightarrow> nat" where
  "hex_value ds = foldl (\<lambda>acc ch. 16 * acc + hex_digit_value ch) 0 ds"

section \<open>The bus\<close>

text \<open>
  \<^verbatim>\<open>bus.py\<close> and \<^verbatim>\<open>apple1_bus.py\<close>. A bus object is a record of its attributes.
  The three 65536-element lists are functions on \<open>int\<close>: every index the code uses has
  been masked with \<^verbatim>\<open>& 0xFFFF\<close> first, so no access is out of range. Python integers
  are unbounded, hence \<open>int\<close>, with the masks written as in the source.

  The attached curses screen is reduced to what the bus does with it: \<open>pending\<close> are the
  key codes that non-blocking \<^verbatim>\<open>getch()\<close> calls will return in turn (\<open>ERR\<close> once the
  list is exhausted), \<open>shown\<close> the character codes passed to \<^verbatim>\<open>addstr\<close> so far.
  \<^verbatim>\<open>refresh()\<close> changes nothing the program can observe and is left out, as is
  \<^verbatim>\<open>scr_settings\<close>. \<open>bus_delay\<close> is the attribute \<^verbatim>\<open>delay\<close> of the bus, in
  microseconds.

  \<open>bus_class\<close> records which class the object was built from; it selects the method a
  call of \<^verbatim>\<open>bus.read\<close> or \<^verbatim>\<open>bus.write\<close> dispatches to.
\<close>

datatype bus_class = Bus | SystemBus

record screen =
  pending :: "int list"
  shown :: "int list"

record bus_state =
  bus_class :: bus_class
  mem :: "int \<Rightarrow> int"
  is_writeable :: "int \<Rightarrow> bool"
  is_readable :: "int \<Rightarrow> bool"
  throw_memory_errors :: bool
  interrupt :: "string option"
  bus_delay :: int
  stdscr :: "screen option"
  kbd :: int
  dsp :: int

text \<open>
  \<^verbatim>\<open>Bus.__init__\<close>. The argument \<open>contents\<close> is the memory the constructor leaves
  behind: all zero, or what \<^verbatim>\<open>randomize_state\<close> drew.
\<close>

definition Bus_init :: "(int \<Rightarrow> int) \<Rightarrow> bool \<Rightarrow> bus_state" where
  "Bus_init contents throw =
     \<lparr>bus_class = Bus, mem = contents, is_writeable = (\<lambda>_. True), is_readable = (\<lambda>_. True),
      throw_memory_errors = throw, interrupt = None, bus_delay = 0, stdscr = None,
      kbd = 0, dsp = 0\<rparr>"

definition Bus_read :: "bus_state \<Rightarrow> int \<Rightarrow> (error + int) \<times> bus_state" where
  "Bus_read b address0 =
     (let address = address0 AND 0xFFFF in
      if is_readable b address then (Inr (mem b address), b)
      else if throw_memory_errors b then
        (Inl (SimError (''Attempt to read from unreadable address $'' @ format_hex 4 address)), b)
      else (Inr 0, b))"

definition Bus_write :: "bus_state \<Rightarrow> int \<Rightarrow> int \<Rightarrow> (error + unit) \<times> bus_state" where
  "Bus_write b address0 value0 =
     (let address = address0 AND 0xFFFF;
          val = value0 AND 0xFF in
      if is_writeable b address then (Inr (), b\<lparr>mem := (mem b)(address := val)\<rparr>)
      else if throw_memory_errors b then
        (Inl (SimError (''Attempt to write value $'' @ format_hex 2 val @
                        '' to unwriteable address $'' @ format_hex 4 address)), b)
      else (Inr (), b))"

text \<open>
  \<^verbatim>\<open>SystemBus.__init__\<close>: the base constructor, then the top half of the address space
  is made non-writeable and \<^verbatim>\<open>$8000-$DFFF\<close> non-readable. \<^verbatim>\<open>read_file\<close> then
  stores the two ROM images straight into \<^verbatim>\<open>mem\<close> (it touches nothing else); the
  files are not part of the sources, so \<open>contents\<close> is the memory after both loads.
  The output delay becomes \<^verbatim>\<open>0.005\<close> seconds.
\<close>

definition SystemBus_init :: "(int \<Rightarrow> int) \<Rightarrow> bool \<Rightarrow> bus_state" where
  "SystemBus_init contents throw =
     (Bus_init contents throw)
       \<lparr>bus_class := SystemBus,
        is_writeable := (\<lambda>i. \<not> (0x8000 \<le> i \<and> i < 0x10000)),
        is_readable := (\<lambda>i. \<not> (0x8000 \<le> i \<and> i < 0xE000)),
        bus_delay := 5000\<rparr>"

definition ERR :: int where
  "ERR = - 1"

definition getch :: "bus_state \<Rightarrow> int \<times> bus_state" where
  "getch b =
     (case stdscr b of
        None \<Rightarrow> (ERR, b)
      | Some scr \<Rightarrow>
          (case pending scr of
             [] \<Rightarrow> (ERR, b)
           | k # ks \<Rightarrow> (k, b\<lparr>stdscr := Some (scr\<lparr>pending := ks\<rparr>)\<rparr>)))"

definition addstr :: "int \<Rightarrow> bus_state \<Rightarrow> bus_state" where
  "addstr ch b =
     (case stdscr b of
        None \<Rightarrow> b
      | Some scr \<Rightarrow> b\<lparr>stdscr := Some (scr\<lparr>shown := shown scr @ [ch]\<rparr>)\<rparr>)"

definition SystemBus_read :: "bus_state \<Rightarrow> int \<Rightarrow> (error + int) \<times> bus_state" where
  "SystemBus_read b address0 =
     (let address = address0 AND 0xFFFF in
      if address = 0xD010 then (Inr (kbd b), b\<lparr>kbd := 0\<rparr>)
      else if address = 0xD011 then
        (case getch b of (k, b1) \<Rightarrow>
           if k = ERR then (Inr 0, b1)
           else
             (let b2 = (if k = 18 then b1\<lparr>interrupt := Some ''RES''\<rparr> else b1);
                  b3 = (if k = 5 then b2\<lparr>interrupt := Some ''HLT''\<rparr> else b2);
                  k1 = (if 97 \<le> k \<and> k \<le> 122 then k - 32 else k);
                  k2 = (if k1 = 10 then 13 else k1);
                  k3 = (if k2 = 127 then 95 else k2)
              in (Inr 0x80, b3\<lparr>kbd := k3 OR 0x80\<rparr>)))
      else if address = 0xD012 then (Inr 0, b)
      else Bus_read b address)"

definition SystemBus_write :: "bus_state \<Rightarrow> int \<Rightarrow> int \<Rightarrow> (error + unit) \<times> bus_state" where
  "SystemBus_write b address0 value0 =
     (let address = address0 AND 0xFFFF;
          val = value0 AND 0xFF in
      if address = 0xD012 then
        (let b1 = b\<lparr>dsp := val\<rparr>;
             v1 = val AND 0x7F;
             v2 = (if v1 > 95 then v1 - 32 else v1)
         in case sleep (bus_delay b1) of
              Inl e \<Rightarrow> (Inl e, b1)
            | Inr _ \<Rightarrow>
                (let b2 = (if (32 \<le> v2 \<and> v2 \<le> 95) \<or> v2 = 13
                           then addstr (if v2 = 13 then 10 else v2) b1 else b1)
                 in (Inr (), b2)))
      else if address = 0xD011 \<or> address = 0xD013 then (Inr (), b)
      else Bus_write b address val)"

text \<open>Method dispatch on the class of the bus object.\<close>

definition bus_read :: "bus_state \<Rightarrow> int \<Rightarrow> (error + int) \<times> bus_state" where
  "bus_read b address =
     (case bus_class b of Bus \<Rightarrow> Bus_read b address | SystemBus \<Rightarrow> SystemBus_read b address)"

definition bus_write :: "bus_state \<Rightarrow> int \<Rightarrow> int \<Rightarrow> (error + unit) \<times> bus_state" where
  "bus_write b address val =
     (case bus_class b of Bus \<Rightarrow> Bus_write b address val | SystemBus \<Rightarrow> SystemBus_write b address val)"

section \<open>The CPU\<close>

text \<open>
  \<^verbatim>\<open>cpu.py\<close>. The registers \<^verbatim>\<open>a x y pc s\<close> and the flags \<^verbatim>\<open>c z i d b v n\<close> are
  Python integers ("flags are kept as numeric rather than boolean"), so they are \<open>int\<close>
  here and a flag is tested for truth with \<open>\<noteq> 0\<close>. The fields carry a prefix because a
  one-letter record field would capture that letter everywhere else. The CPU owns its bus
  object. \<open>cpu_delay\<close> is the attribute \<^verbatim>\<open>delay\<close> of the CPU, in microseconds. The
  two \<^verbatim>\<open>print\<close> calls of the resolvers are left out.
\<close>

record cpu_state =
  reg_a :: int
  reg_x :: int
  reg_y :: int
  reg_pc :: int
  reg_s :: int
  flag_c :: int
  flag_z :: int
  flag_i :: int
  flag_d :: int
  flag_b :: int
  flag_v :: int
  flag_n :: int
  halted :: bool
  breakpoints :: "int list"
  last_break :: "int option"
  cpu_delay :: int
  bus :: bus_state

text \<open>
  A method of the CPU either returns a value or raises, and in both cases leaves a state
  behind: what it had assigned before an exception stays assigned.
\<close>

type_synonym 'a cpu_m = "cpu_state \<Rightarrow> (error + 'a) \<times> cpu_state"

definition return_m :: "'a \<Rightarrow> 'a cpu_m" where
  "return_m v = (\<lambda>s. (Inr v, s))"

definition bind_m :: "'a cpu_m \<Rightarrow> ('a \<Rightarrow> 'b cpu_m) \<Rightarrow> 'b cpu_m" where
  "bind_m m f = (\<lambda>s. case m s of (Inl e, s1) \<Rightarrow> (Inl e, s1) | (Inr v, s1) \<Rightarrow> f v s1)"

definition update :: "(cpu_state \<Rightarrow> cpu_state) \<Rightarrow> unit cpu_m" where
  "update f = (\<lambda>s. (Inr (), f s))"

definition self_bus_read :: "int \<Rightarrow> int cpu_m" where
  "self_bus_read address = (\<lambda>s. case bus_read (bus s) address of (r, b1) \<Rightarrow> (r, s\<lparr>bus := b1\<rparr>))"

definition self_bus_write :: "int \<Rightarrow> int \<Rightarrow> unit cpu_m" where
  "self_bus_write address val = (\<lambda>s. case bus_write (bus s) address val of (r, b1) \<Rightarrow> (r, s\<lparr>bus := b1\<rparr>))"

text \<open>\<^verbatim>\<open>self.bus.read(self.pc)\<close>\<close>

definition read_at_pc :: "int cpu_m" where
  "read_at_pc = (\<lambda>s. self_bus_read (reg_pc s) s)"

text \<open>\<^verbatim>\<open>CPU.__init__\<close> with \<^verbatim>\<open>initialize_registers\<close>.\<close>

definition CPU_init :: "bus_state \<Rightarrow> cpu_state" where
  "CPU_init b =
     \<lparr>reg_a = 0, reg_x = 0, reg_y = 0, reg_pc = 0, reg_s = 0xFF,
      flag_c = 0, flag_z = 0, flag_i = 0, flag_d = 0, flag_b = 0, flag_v = 0, flag_n = 0,
      halted = True, breakpoints = [], last_break = None, cpu_delay = 2, bus = b\<rparr>"

definition get_status_register :: "cpu_state \<Rightarrow> int" where
  "get_status_register s =
     (if flag_n s \<noteq> 0 then 0x80 else 0) + (if flag_v s \<noteq> 0 then 0x40 else 0) +
     (if flag_b s \<noteq> 0 then 0x10 else 0) + (if flag_d s \<noteq> 0 then 0x08 else 0) +
     (if flag_i s \<noteq> 0 then 0x04 else 0) + (if flag_z s \<noteq> 0 then 0x02 else 0) +
     (if flag_c s \<noteq> 0 then 0x01 else 0)"

definition set_status_register :: "int \<Rightarrow> cpu_state \<Rightarrow> cpu_state" where
  "set_status_register sr s =
     s\<lparr>flag_n := (if sr AND 0x80 \<noteq> 0 then 1 else 0),
       flag_v := (if sr AND 0x40 \<noteq> 0 then 1 else 0),
       flag_b := (if sr AND 0x10 \<noteq> 0 then 1 else 0),
       flag_d := (if sr AND 0x08 \<noteq> 0 then 1 else 0),
       flag_i := (if sr AND 0x04 \<noteq> 0 then 1 else 0),
       flag_z := (if sr AND 0x02 \<noteq> 0 then 1 else 0),
       flag_c := (if sr AND 0x01 \<noteq> 0 then 1 else 0)\<rparr>"

definition inc_pc :: "cpu_state \<Rightarrow> cpu_state" where
  "inc_pc s = s\<lparr>reg_pc := (reg_pc s + 1) AND 0xFFFF\<rparr>"

definition sei :: "unit cpu_m" where
  "sei = update (\<lambda>s. s\<lparr>flag_i := 1\<rparr>)"

definition sei_and_set_pc :: "int \<Rightarrow> unit cpu_m" where
  "sei_and_set_pc vector =
     bind_m sei (\<lambda>_.
     bind_m (self_bus_read vector) (\<lambda>lo.
     bind_m (self_bus_read ((vector + 1) AND 0xFFFF)) (\<lambda>hi.
     update (\<lambda>s. s\<lparr>reg_pc := lo + hi * 0x100\<rparr>))))"

definition reset :: "unit cpu_m" where
  "reset = sei_and_set_pc 0xFFFC"

definition set_breakpoint :: "int \<Rightarrow> cpu_state \<Rightarrow> bool \<times> cpu_state" where
  "set_breakpoint address0 s =
     (let address = address0 AND 0xFFFF in
      if address \<in> set (breakpoints s) then (False, s\<lparr>breakpoints := remove1 address (breakpoints s)\<rparr>)
      else (True, s\<lparr>breakpoints := breakpoints s @ [address]\<rparr>))"

definition clear_breakpoints :: "cpu_state \<Rightarrow> nat \<times> cpu_state" where
  "clear_breakpoints s = (length (breakpoints s), s\<lparr>breakpoints := []\<rparr>)"

subsection \<open>Helpers of the operators\<close>

definition bin2bcd :: "int \<Rightarrow> int" where
  "bin2bcd n = ((n div 10) * 16 + (n mod 10)) AND 0xFF"

definition bcd2bin :: "int \<Rightarrow> int" where
  "bcd2bin n = (n div 16) * 10 + (n AND 0x0F)"

definition set_nz :: "int \<Rightarrow> cpu_state \<Rightarrow> cpu_state" where
  "set_nz result s =
     s\<lparr>flag_z := (if result = 0 then 1 else 0), flag_n := (if result \<ge> 0x80 then 1 else 0)\<rparr>"

definition pull :: "int cpu_m" where
  "pull = (\<lambda>s. let s1 = s\<lparr>reg_s := (reg_s s + 1) AND 0xFF\<rparr> in self_bus_read (0x100 + reg_s s1) s1)"

definition push :: "int \<Rightarrow> unit cpu_m" where
  "push val =
     bind_m (\<lambda>s. self_bus_write (0x100 + reg_s s) val s) (\<lambda>_.
     update (\<lambda>s. s\<lparr>reg_s := (reg_s s - 1) AND 0xFF\<rparr>))"

definition branch :: "bool \<Rightarrow> unit cpu_m" where
  "branch take_branch =
     bind_m read_at_pc (\<lambda>displacement.
     bind_m (update inc_pc) (\<lambda>_.
     if take_branch then
       (let displacement1 = (if displacement \<ge> 0x80 then - (0x100 - displacement) else displacement)
        in update (\<lambda>s. s\<lparr>reg_pc := (reg_pc s + displacement1) AND 0xFFFF\<rparr>))
     else return_m ()))"

definition compare :: "int \<Rightarrow> int \<Rightarrow> cpu_state \<Rightarrow> cpu_state" where
  "compare reg_value n s =
     (let result = reg_value - n;
          s1 = s\<lparr>flag_c := (if result \<ge> 0 then 1 else 0)\<rparr>
      in set_nz (result AND 0xFF) s1)"

definition shift_left :: "int \<Rightarrow> bool \<Rightarrow> cpu_state \<Rightarrow> int \<times> cpu_state" where
  "shift_left value0 carry_fill s =
     (let saved_carry = flag_c s;
          s1 = s\<lparr>flag_c := (if value0 \<ge> 0x80 then 1 else 0)\<rparr>;
          value1 = (value0 * 2) AND 0xFF;
          value2 = (if carry_fill \<and> saved_carry \<noteq> 0 then value1 + 1 else value1)
      in (value2, set_nz value2 s1))"

definition shift_right :: "int \<Rightarrow> bool \<Rightarrow> cpu_state \<Rightarrow> int \<times> cpu_state" where
  "shift_right value0 carry_fill s =
     (let saved_carry = flag_c s;
          s1 = s\<lparr>flag_c := value0 AND 1\<rparr>;
          value1 = (value0 div 2) AND 0xFF;
          value2 = (if carry_fill \<and> saved_carry \<noteq> 0 then value1 + 0x80 else value1)
      in (value2, set_nz value2 s1))"

text \<open>
  The body shared by \<^verbatim>\<open>asl\<close>, \<^verbatim>\<open>lsr\<close>, \<^verbatim>\<open>rol\<close> and \<^verbatim>\<open>ror\<close>, which differ
  only in the shift they call: the value comes from A when the address is the sentinel and
  from the bus otherwise, and goes back where it came from.
\<close>

definition shift_op ::
  "(int \<Rightarrow> bool \<Rightarrow> cpu_state \<Rightarrow> int \<times> cpu_state) \<Rightarrow> bool \<Rightarrow> int option \<Rightarrow> unit cpu_m" where
  "shift_op shift carry_fill address =
     bind_m (case address of None \<Rightarrow> (\<lambda>s. (Inr (reg_a s), s)) | Some ad \<Rightarrow> self_bus_read ad) (\<lambda>value0.
     bind_m (\<lambda>s. case shift value0 carry_fill s of (value1, s1) \<Rightarrow> (Inr value1, s1)) (\<lambda>value1.
     case address of None \<Rightarrow> update (\<lambda>s. s\<lparr>reg_a := value1\<rparr>) | Some ad \<Rightarrow> self_bus_write ad value1))"

subsection \<open>Address-resolving methods\<close>

definition absolute :: "int cpu_m" where
  "absolute =
     bind_m read_at_pc (\<lambda>lo.
     bind_m (update inc_pc) (\<lambda>_.
     bind_m read_at_pc (\<lambda>hi.
     bind_m (update inc_pc) (\<lambda>_.
     return_m (lo + hi * 0x100)))))"

definition absolute_x :: "int cpu_m" where
  "absolute_x = bind_m absolute (\<lambda>address s. (Inr ((address + reg_x s) AND 0xFFFF), s))"

definition absolute_y :: "int cpu_m" where
  "absolute_y = bind_m absolute (\<lambda>address s. (Inr ((address + reg_y s) AND 0xFFFF), s))"

definition immediate :: "int cpu_m" where
  "immediate = (\<lambda>s. (Inr (reg_pc s), inc_pc s))"

definition indirect :: "int cpu_m" where
  "indirect =
     bind_m read_at_pc (\<lambda>lo.
     bind_m (update inc_pc) (\<lambda>_.
     bind_m read_at_pc (\<lambda>hi.
     bind_m (update inc_pc) (\<lambda>_.
     (let address_location = lo + hi * 0x100 in
      bind_m (self_bus_read address_location) (\<lambda>address_lsb.
      (let address_location1 =
             (if address_location AND 0xFF = 0xFF then address_location - 0xFF
              else address_location + 1)
       in bind_m (self_bus_read address_location1) (\<lambda>address_msb.
          return_m (address_msb * 0x100 + address_lsb)))))))))"

definition zero_page :: "int cpu_m" where
  "zero_page = bind_m read_at_pc (\<lambda>address. bind_m (update inc_pc) (\<lambda>_. return_m address))"

definition zero_page_x :: "int cpu_m" where
  "zero_page_x =
     bind_m read_at_pc (\<lambda>address.
     bind_m (update inc_pc) (\<lambda>_ s. (Inr ((address + reg_x s) AND 0xFF), s)))"

definition zero_page_y :: "int cpu_m" where
  "zero_page_y =
     bind_m read_at_pc (\<lambda>address.
     bind_m (update inc_pc) (\<lambda>_ s. (Inr ((address + reg_y s) AND 0xFF), s)))"

definition indirect_x :: "int cpu_m" where
  "indirect_x =
     bind_m zero_page_x (\<lambda>address_location.
     bind_m (self_bus_read ((address_location + 1) AND 0xFF)) (\<lambda>hi.
     bind_m (self_bus_read address_location) (\<lambda>lo.
     return_m (hi * 0x100 + lo))))"

definition indirect_y :: "int cpu_m" where
  "indirect_y =
     bind_m zero_page (\<lambda>address_location.
     bind_m (self_bus_read ((address_location + 1) AND 0xFF)) (\<lambda>hi.
     bind_m (self_bus_read address_location) (\<lambda>lo s.
     (Inr ((hi * 0x100 + lo + reg_y s) AND 0xFFFF), s))))"

subsection \<open>Operator methods\<close>

definition php :: "unit cpu_m" where
  "php = (\<lambda>s. push (get_status_register s OR 0x30) s)"

definition cpu_interrupt :: "int \<Rightarrow> bool \<Rightarrow> unit cpu_m" where
  "cpu_interrupt vector set_break_flag =
     bind_m (\<lambda>s. push (reg_pc s div 0x100) s) (\<lambda>_.
     bind_m (\<lambda>s. push (reg_pc s AND 0xFF) s) (\<lambda>_.
     bind_m (if set_break_flag then php
             else (\<lambda>s. push (get_status_register s AND 0xCF) s)) (\<lambda>_.
     sei_and_set_pc vector)))"

definition adc :: "int \<Rightarrow> unit cpu_m" where
  "adc address =
     bind_m (self_bus_read address) (\<lambda>value0.
     update (\<lambda>s.
       let (result, s1) =
             (if flag_d s \<noteq> 0 then
                (let r = bcd2bin (reg_a s) + bcd2bin value0 + flag_c s in
                 if r \<ge> 100 then (r - 100, s\<lparr>flag_c := 1\<rparr>) else (r, s\<lparr>flag_c := 0\<rparr>))
              else
                (let r = reg_a s + value0 + flag_c s in
                 (r AND 0xFF, s\<lparr>flag_c := (if r > 255 then 1 else 0)\<rparr>)));
           s2 = s1\<lparr>flag_v := (if reg_a s1 AND 0x80 \<noteq> result AND 0x80 \<and>
                                 value0 AND 0x80 \<noteq> result AND 0x80 then 1 else 0)\<rparr>;
           s3 = set_nz result s2
       in if flag_d s3 \<noteq> 0 then s3\<lparr>reg_a := bin2bcd result\<rparr> else s3\<lparr>reg_a := result\<rparr>))"

definition aNd :: "int \<Rightarrow> unit cpu_m" where
  "aNd address =
     bind_m (self_bus_read address) (\<lambda>value0.
     update (\<lambda>s. let s1 = s\<lparr>reg_a := (reg_a s AND value0) AND 0xFF\<rparr> in set_nz (reg_a s1) s1))"

definition asl :: "int option \<Rightarrow> unit cpu_m" where
  "asl address = shift_op shift_left False address"

definition bcc :: "unit cpu_m" where
  "bcc = (\<lambda>s. branch (flag_c s = 0) s)"

definition bcs :: "unit cpu_m" where
  "bcs = (\<lambda>s. branch (flag_c s \<noteq> 0) s)"

definition beq :: "unit cpu_m" where
  "beq = (\<lambda>s. branch (flag_z s \<noteq> 0) s)"

definition bit_op :: "int \<Rightarrow> unit cpu_m" where
  "bit_op address =
     bind_m (self_bus_read address) (\<lambda>value0.
     update (\<lambda>s. s\<lparr>flag_z := (if value0 AND reg_a s = 0 then 1 else 0),
                     flag_n := (if value0 \<ge> 0x80 then 1 else 0),
                     flag_v := (if value0 AND 0x40 = 0x40 then 1 else 0)\<rparr>))"

definition bmi :: "unit cpu_m" where
  "bmi = (\<lambda>s. branch (flag_n s \<noteq> 0) s)"

definition bne :: "unit cpu_m" where
  "bne = (\<lambda>s. branch (flag_z s = 0) s)"

definition bpl :: "unit cpu_m" where
  "bpl = (\<lambda>s. branch (flag_n s = 0) s)"

definition brk :: "unit cpu_m" where
  "brk = bind_m (update inc_pc) (\<lambda>_. cpu_interrupt 0xFFFE True)"

definition bvc :: "unit cpu_m" where
  "bvc = (\<lambda>s. branch (flag_v s = 0) s)"

definition bvs :: "unit cpu_m" where
  "bvs = (\<lambda>s. branch (flag_v s \<noteq> 0) s)"

definition clc :: "unit cpu_m" where
  "clc = update (\<lambda>s. s\<lparr>flag_c := 0\<rparr>)"

definition cld :: "unit cpu_m" where
  "cld = update (\<lambda>s. s\<lparr>flag_d := 0\<rparr>)"

definition cli :: "unit cpu_m" where
  "cli = update (\<lambda>s. s\<lparr>flag_i := 0\<rparr>)"

definition clv :: "unit cpu_m" where
  "clv = update (\<lambda>s. s\<lparr>flag_v := 0\<rparr>)"

definition cmp :: "int \<Rightarrow> unit cpu_m" where
  "cmp address = bind_m (self_bus_read address) (\<lambda>value0. update (\<lambda>s. compare (reg_a s) value0 s))"

definition cpx :: "int \<Rightarrow> unit cpu_m" where
  "cpx address = bind_m (self_bus_read address) (\<lambda>value0. update (\<lambda>s. compare (reg_x s) value0 s))"

definition cpy :: "int \<Rightarrow> unit cpu_m" where
  "cpy address = bind_m (self_bus_read address) (\<lambda>value0. update (\<lambda>s. compare (reg_y s) value0 s))"

definition dec :: "int \<Rightarrow> unit cpu_m" where
  "dec address =
     bind_m (self_bus_read address) (\<lambda>value0.
     (let value1 = (value0 - 1) AND 0xFF in
      bind_m (self_bus_write address value1) (\<lambda>_. update (set_nz value1))))"

definition dex :: "unit cpu_m" where
  "dex = update (\<lambda>s. (let s1 = s\<lparr>reg_x := (reg_x s - 1) AND 0xFF\<rparr> in set_nz (reg_x s1) s1))"

definition dey :: "unit cpu_m" where
  "dey = update (\<lambda>s. (let s1 = s\<lparr>reg_y := (reg_y s - 1) AND 0xFF\<rparr> in set_nz (reg_y s1) s1))"

definition eor :: "int \<Rightarrow> unit cpu_m" where
  "eor address =
     bind_m (self_bus_read address) (\<lambda>value0.
     update (\<lambda>s. let s1 = s\<lparr>reg_a := (reg_a s XOR value0) AND 0xFF\<rparr> in set_nz (reg_a s1) s1))"

definition inc :: "int \<Rightarrow> unit cpu_m" where
  "inc address =
     bind_m (self_bus_read address) (\<lambda>value0.
     (let value1 = (value0 + 1) AND 0xFF in
      bind_m (self_bus_write address value1) (\<lambda>_. update (set_nz value1))))"

definition inx :: "unit cpu_m" where
  "inx = update (\<lambda>s. (let s1 = s\<lparr>reg_x := (reg_x s + 1) AND 0xFF\<rparr> in set_nz (reg_x s1) s1))"

definition iny :: "unit cpu_m" where
  "iny = update (\<lambda>s. (let s1 = s\<lparr>reg_y := (reg_y s + 1) AND 0xFF\<rparr> in set_nz (reg_y s1) s1))"

definition jmp :: "int \<Rightarrow> unit cpu_m" where
  "jmp address = update (\<lambda>s. s\<lparr>reg_pc := address\<rparr>)"

definition jsr :: "int \<Rightarrow> unit cpu_m" where
  "jsr address = (\<lambda>s.
     let return_address = (reg_pc s - 1) AND 0xFFFF in
     bind_m (push (return_address div 0x100)) (\<lambda>_.
     bind_m (push (return_address AND 0xFF)) (\<lambda>_.
     update (\<lambda>s. s\<lparr>reg_pc := address\<rparr>))) s)"

definition lda :: "int \<Rightarrow> unit cpu_m" where
  "lda address =
     bind_m (self_bus_read address) (\<lambda>value0.
     update (\<lambda>s. let s1 = s\<lparr>reg_a := value0\<rparr> in set_nz (reg_a s1) s1))"

definition ldx :: "int \<Rightarrow> unit cpu_m" where
  "ldx address =
     bind_m (self_bus_read address) (\<lambda>value0.
     update (\<lambda>s. let s1 = s\<lparr>reg_x := value0\<rparr> in set_nz (reg_x s1) s1))"

definition ldy :: "int \<Rightarrow> unit cpu_m" where
  "ldy address =
     bind_m (self_bus_read address) (\<lambda>value0.
     update (\<lambda>s. let s1 = s\<lparr>reg_y := value0\<rparr> in set_nz (reg_y s1) s1))"

definition lsr :: "int option \<Rightarrow> unit cpu_m" where
  "lsr address = shift_op shift_right False address"

definition nop :: "unit cpu_m" where
  "nop = update (\<lambda>s. s)"

definition ora :: "int \<Rightarrow> unit cpu_m" where
  "ora address =
     bind_m (self_bus_read address) (\<lambda>value0.
     update (\<lambda>s. let s1 = s\<lparr>reg_a := (reg_a s OR value0) AND 0xFF\<rparr> in set_nz (reg_a s1) s1))"

definition pha :: "unit cpu_m" where
  "pha = (\<lambda>s. push (reg_a s) s)"

definition pla :: "unit cpu_m" where
  "pla = bind_m pull (\<lambda>value0.
     update (\<lambda>s. let s1 = s\<lparr>reg_a := value0\<rparr> in set_nz (reg_a s1) s1))"

definition plp :: "unit cpu_m" where
  "plp = bind_m pull (\<lambda>sr. update (set_status_register sr))"

definition rol :: "int option \<Rightarrow> unit cpu_m" where
  "rol address = shift_op shift_left True address"

definition ror :: "int option \<Rightarrow> unit cpu_m" where
  "ror address = shift_op shift_right True address"

definition rti :: "unit cpu_m" where
  "rti =
     bind_m plp (\<lambda>_.
     bind_m pull (\<lambda>lsb.
     bind_m pull (\<lambda>msb.
     update (\<lambda>s. s\<lparr>reg_pc := msb * 0x100 + lsb\<rparr>))))"

definition rts :: "unit cpu_m" where
  "rts =
     bind_m pull (\<lambda>lsb.
     bind_m pull (\<lambda>msb.
     bind_m (update (\<lambda>s. s\<lparr>reg_pc := msb * 0x100 + lsb\<rparr>)) (\<lambda>_.
     update inc_pc)))"

definition sbc :: "int \<Rightarrow> unit cpu_m" where
  "sbc address =
     bind_m (self_bus_read address) (\<lambda>value0.
     update (\<lambda>s.
       let (result, s1) =
             (if flag_d s \<noteq> 0 then
                (let r = bcd2bin (reg_a s) - bcd2bin value0 + flag_c s - 1;
                     sv = s\<lparr>flag_v := (if reg_a s AND 0x80 \<noteq> r AND 0x80 \<and>
                                           value0 AND 0x80 = r AND 0x80 then 1 else 0)\<rparr>
                 in if r < 0 then (r + 100, sv\<lparr>flag_c := 0\<rparr>) else (r, sv\<lparr>flag_c := 1\<rparr>))
              else
                (let r = reg_a s - value0 + flag_c s - 1;
                     sc = s\<lparr>flag_c := (if r \<ge> 0 then 1 else 0)\<rparr>;
                     sv = sc\<lparr>flag_v := (if reg_a sc AND 0x80 \<noteq> r AND 0x80 \<and>
                                            value0 AND 0x80 = r AND 0x80 then 1 else 0)\<rparr>
                 in (r AND 0xFF, sv)));
           s2 = set_nz result s1
       in if flag_d s2 \<noteq> 0 then s2\<lparr>reg_a := bin2bcd result\<rparr> else s2\<lparr>reg_a := result\<rparr>))"

definition sec :: "unit cpu_m" where
  "sec = update (\<lambda>s. s\<lparr>flag_c := 1\<rparr>)"

definition sed :: "unit cpu_m" where
  "sed = update (\<lambda>s. s\<lparr>flag_d := 1\<rparr>)"

definition sta :: "int \<Rightarrow> unit cpu_m" where
  "sta address = (\<lambda>s. self_bus_write address (reg_a s) s)"

definition stx :: "int \<Rightarrow> unit cpu_m" where
  "stx address = (\<lambda>s. self_bus_write address (reg_x s) s)"

definition sty :: "int \<Rightarrow> unit cpu_m" where
  "sty address = (\<lambda>s. self_bus_write address (reg_y s) s)"

definition tax :: "unit cpu_m" where
  "tax = update (\<lambda>s. (let s1 = s\<lparr>reg_x := reg_a s\<rparr> in set_nz (reg_x s1) s1))"

definition tay :: "unit cpu_m" where
  "tay = update (\<lambda>s. (let s1 = s\<lparr>reg_y := reg_a s\<rparr> in set_nz (reg_y s1) s1))"

definition tsx :: "unit cpu_m" where
  "tsx = update (\<lambda>s. (let s1 = s\<lparr>reg_x := reg_s s\<rparr> in set_nz (reg_x s1) s1))"

definition txa :: "unit cpu_m" where
  "txa = update (\<lambda>s. (let s1 = s\<lparr>reg_a := reg_x s\<rparr> in set_nz (reg_a s1) s1))"

definition txs :: "unit cpu_m" where
  "txs = update (\<lambda>s. s\<lparr>reg_s := reg_x s\<rparr>)"

definition tya :: "unit cpu_m" where
  "tya = update (\<lambda>s. (let s1 = s\<lparr>reg_a := reg_y s\<rparr> in set_nz (reg_a s1) s1))"

subsection \<open>The opcode dictionary\<close>

text \<open>
  The dictionary maps the two-digit key of an opcode to an operator method, or to a list
  of an operator method and an address-resolving method. An entry holds the operator
  itself; the resolver is named by a constructor (\<open>am_\<close> in front of the method's
  name) and \<open>resolve\<close> gives each name its method, whose result is an address or the
  accumulator sentinel \<open>None\<close>.

  Only the shifts and rotates accept the sentinel. \<open>addressed f\<close> is an operator \<open>f\<close>
  that uses its argument as an address at once: handed the sentinel it fails with a
  host-runtime error.
\<close>

datatype resolver =
    am_absolute | am_absolute_x | am_absolute_y | am_accumulator | am_immediate | am_indirect
  | am_indirect_x | am_indirect_y | am_zero_page | am_zero_page_x | am_zero_page_y

datatype instruction =
    Plain "unit cpu_m"
  | Listed "int option \<Rightarrow> unit cpu_m" resolver

definition addressed :: "(int \<Rightarrow> unit cpu_m) \<Rightarrow> int option \<Rightarrow> unit cpu_m" where
  "addressed f address = (case address of None \<Rightarrow> (\<lambda>s. (Inl TypeError, s)) | Some ad \<Rightarrow> f ad)"

definition opcodes :: "(string \<times> instruction) list" where
  "opcodes = [
    (''00'', Plain brk),
    (''01'', Listed (addressed ora) am_indirect_x),
    (''05'', Listed (addressed ora) am_zero_page),
    (''06'', Listed asl am_zero_page),
    (''08'', Plain php),
    (''09'', Listed (addressed ora) am_immediate),
    (''0A'', Listed asl am_accumulator),
    (''0D'', Listed (addressed ora) am_absolute),
    (''0E'', Listed asl am_absolute),
    (''10'', Plain bpl),
    (''11'', Listed (addressed ora) am_indirect_y),
    (''15'', Listed (addressed ora) am_zero_page_x),
    (''16'', Listed asl am_zero_page_x),
    (''18'', Plain clc),
    (''19'', Listed (addressed ora) am_absolute_y),
    (''1D'', Listed (addressed ora) am_absolute_x),
    (''1E'', Listed asl am_absolute_x),
    (''20'', Listed (addressed jsr) am_absolute),
    (''21'', Listed (addressed aNd) am_indirect),
    (''24'', Listed (addressed bit_op) am_zero_page),
    (''25'', Listed (addressed aNd) am_zero_page),
    (''26'', Listed rol am_zero_page),
    (''28'', Plain plp),
    (''29'', Listed (addressed aNd) am_immediate),
    (''2A'', Listed rol am_accumulator),
    (''2C'', Listed (addressed bit_op) am_absolute),
    (''2D'', Listed (addressed aNd) am_absolute),
    (''2E'', Listed rol am_absolute),
    (''30'', Plain bmi),
    (''31'', Listed (addressed aNd) am_indirect_y),
    (''35'', Listed (addressed aNd) am_zero_page_x),
    (''36'', Listed rol am_zero_page_x),
    (''38'', Plain sec),
    (''39'', Listed (addressed aNd) am_absolute_y),
    (''3D'', Listed (addressed aNd) am_absolute_x),
    (''3E'', Listed rol am_absolute_x),
    (''40'', Plain rti),
    (''41'', Listed (addressed eor) am_indirect_x),
    (''45'', Listed (addressed eor) am_zero_page),
    (''46'', Listed lsr am_zero_page),
    (''48'', Plain pha),
    (''49'', Listed (addressed eor) am_immediate),
    (''4A'', Listed lsr am_accumulator),
    (''4C'', Listed (addressed jmp) am_absolute),
    (''4D'', Listed (addressed eor) am_absolute),
    (''4E'', Listed lsr am_absolute),
    (''50'', Plain bvc),
    (''51'', Listed (addressed eor) am_indirect_y),
    (''55'', Listed (addressed eor) am_zero_page_x),
    (''56'', Listed lsr am_zero_page_x),
    (''58'', Plain cli),
    (''59'', Listed (addressed eor) am_absolute_y),
    (''5D'', Listed (addressed eor) am_absolute_x),
    (''5E'', Listed lsr am_absolute_x),
    (''60'', Plain rts),
    (''61'', Listed (addressed adc) am_indirect_x),
    (''65'', Listed (addressed adc) am_zero_page),
    (''66'', Listed ror am_zero_page),
    (''68'', Plain pla),
    (''69'', Listed (addressed adc) am_immediate),
    (''6A'', Listed ror am_accumulator),
    (''6C'', Listed (addressed jmp) am_indirect),
    (''6D'', Listed (addressed adc) am_absolute),
    (''6E'', Listed ror am_absolute),
    (''70'', Plain bvs),
    (''71'', Listed (addressed adc) am_indirect_y),
    (''75'', Listed (addressed adc) am_zero_page_x),
    (''76'', Listed ror am_zero_page_x),
    (''78'', Plain sei),
    (''79'', Listed (addressed adc) am_absolute_y),
    (''7D'', Listed (addressed adc) am_absolute_x),
    (''7E'', Listed ror am_absolute_x),
    (''81'', Listed (addressed sta) am_indirect_x),
    (''84'', Listed (addressed sty) am_zero_page),
    (''85'', Listed (addressed sta) am_zero_page),
    (''86'', Listed (addressed stx) am_zero_page),
    (''88'', Plain dey),
    (''8A'', Plain txa),
    (''8C'', Listed (addressed sty) am_absolute),
    (''8D'', Listed (addressed sta) am_absolute),
    (''8E'', Listed (addressed stx) am_absolute),
    (''90'', Plain bcc),
    (''91'', Listed (addressed sta) am_indirect_y),
    (''94'', Listed (addressed sty) am_zero_page_x),
    (''95'', Listed (addressed sta) am_zero_page_x),
    (''96'', Listed (addressed stx) am_zero_page_y),
    (''98'', Plain tya),
    (''99'', Listed (addressed sta) am_absolute_y),
    (''9A'', Plain txs),
    (''9D'', Listed (addressed sta) am_absolute_x),
    (''A0'', Listed (addressed ldy) am_immediate),
    (''A1'', Listed (addressed lda) am_indirect_x),
    (''A2'', Listed (addressed ldx) am_immediate),
    (''A4'', Listed (addressed ldy) am_zero_page),
    (''A5'', Listed (addressed lda) am_zero_page),
    (''A6'', Listed (addressed ldx) am_zero_page),
    (''A8'', Plain tay),
    (''A9'', Listed (addressed lda) am_immediate),
    (''AA'', Plain tax),
    (''AC'', Listed (addressed ldy) am_absolute),
    (''AD'', Listed (addressed lda) am_absolute),
    (''AE'', Listed (addressed ldx) am_absolute),
    (''B0'', Plain bcs),
    (''B1'', Listed (addressed lda) am_indirect_y),
    (''B4'', Listed (addressed ldy) am_zero_page_x),
    (''B5'', Listed (addressed lda) am_zero_page_x),
    (''B6'', Listed (addressed ldx) am_zero_page_y),
    (''B8'', Plain clv),
    (''B9'', Listed (addressed lda) am_absolute_y),
    (''BA'', Plain tsx),
    (''BC'', Listed (addressed ldy) am_absolute_x),
    (''BD'', Listed (addressed lda) am_absolute_x),
    (''BE'', Listed (addressed ldx) am_absolute_y),
    (''C0'', Listed (addressed cpy) am_immediate),
    (''C1'', Listed (addressed cmp) am_indirect_x),
    (''C4'', Listed (addressed cpy) am_zero_page),
    (''C5'', Listed (addressed cmp) am_zero_page),
    (''C6'', Listed (addressed dec) am_zero_page),
    (''C8'', Plain iny),
    (''C9'', Listed (addressed cmp) am_immediate),
    (''CA'', Plain dex),
    (''CC'', Listed (addressed cpy) am_absolute),
    (''CD'', Listed (addressed cmp) am_absolute),
    (''CE'', Listed (addressed dec) am_absolute),
    (''D0'', Plain bne),
    (''D1'', Listed (addressed cmp) am_indirect_y),
    (''D5'', Listed (addressed cmp) am_zero_page_x),
    (''D6'', Listed (addressed dec) am_zero_page_x),
    (''D8'', Plain cld),
    (''D9'', Listed (addressed cmp) am_absolute_y),
    (''DD'', Listed (addressed cmp) am_absolute_x),
    (''DE'', Listed (addressed dec) am_absolute_x),
    (''E0'', Listed (addressed cpx) am_immediate),
    (''E1'', Listed (addressed sbc) am_indirect_x),
    (''E4'', Listed (addressed cpx) am_zero_page),
    (''E5'', Listed (addressed sbc) am_zero_page),
    (''E6'', Listed (addressed inc) am_zero_page),
    (''E8'', Plain inx),
    (''E9'', Listed (addressed sbc) am_immediate),
    (''EA'', Plain nop),
    (''EC'', Listed (addressed cpx) am_absolute),
    (''ED'', Listed (addressed sbc) am_absolute),
    (''EE'', Listed (addressed inc) am_absolute),
    (''F0'', Plain beq),
    (''F1'', Listed (addressed sbc) am_indirect_y),
    (''F5'', Listed (addressed sbc) am_zero_page_x),
    (''F6'', Listed (addressed inc) am_zero_page_x),
    (''F8'', Plain sed),
    (''F9'', Listed (addressed sbc) am_absolute_y),
    (''FD'', Listed (addressed sbc) am_absolute_x),
    (''FE'', Listed (addressed inc) am_absolute_x)
  ]"

definition resolve :: "resolver \<Rightarrow> int option cpu_m" where
  "resolve r =
     (case r of
        am_accumulator \<Rightarrow> return_m None
      | am_absolute \<Rightarrow> bind_m absolute (\<lambda>ad. return_m (Some ad))
      | am_absolute_x \<Rightarrow> bind_m absolute_x (\<lambda>ad. return_m (Some ad))
      | am_absolute_y \<Rightarrow> bind_m absolute_y (\<lambda>ad. return_m (Some ad))
      | am_immediate \<Rightarrow> bind_m immediate (\<lambda>ad. return_m (Some ad))
      | am_indirect \<Rightarrow> bind_m indirect (\<lambda>ad. return_m (Some ad))
      | am_indirect_x \<Rightarrow> bind_m indirect_x (\<lambda>ad. return_m (Some ad))
      | am_indirect_y \<Rightarrow> bind_m indirect_y (\<lambda>ad. return_m (Some ad))
      | am_zero_page \<Rightarrow> bind_m zero_page (\<lambda>ad. return_m (Some ad))
      | am_zero_page_x \<Rightarrow> bind_m zero_page_x (\<lambda>ad. return_m (Some ad))
      | am_zero_page_y \<Rightarrow> bind_m zero_page_y (\<lambda>ad. return_m (Some ad)))"

definition execute :: "instruction \<Rightarrow> unit cpu_m" where
  "execute instr =
     (case instr of
        Plain opr \<Rightarrow> opr
      | Listed opr r \<Rightarrow> bind_m (resolve r) opr)"

subsection \<open>One step\<close>

text \<open>
  \<open>fetch_execute\<close> is the part of \<^verbatim>\<open>step\<close> below the breakpoint check: sleep for
  the instruction delay, fetch the opcode, advance the program counter, look the key up
  and run the instruction.
\<close>

definition fetch_execute :: "unit cpu_m" where
  "fetch_execute =
     bind_m (\<lambda>s. (sleep (cpu_delay s), s)) (\<lambda>_.
     bind_m read_at_pc (\<lambda>opcode s.
       let saved_pc = reg_pc s;
           s1 = inc_pc s;
           key = format_hex 2 opcode
       in case map_of opcodes key of
            None \<Rightarrow>
              (Inl (SimError (''Unrecognized opcode $'' @ key @ '' at $'' @ format_hex 4 saved_pc)),
               s1\<lparr>halted := True\<rparr>)
          | Some instr \<Rightarrow> execute instr s1))"

definition step :: "unit cpu_m" where
  "step = (\<lambda>s.
     if halted s then (Inl (SimError ''Stepping attempted while CPU is halted.''), s)
     else
       (case interrupt (bus s) of
          Some tag \<Rightarrow>
            if tag = ''RES'' then
              bind_m reset (\<lambda>_. update (\<lambda>s. s\<lparr>bus := (bus s)\<lparr>interrupt := None\<rparr>\<rparr>)) s
            else if tag = ''HLT'' then
              (Inr (), (s\<lparr>halted := True\<rparr>)\<lparr>bus := (bus s)\<lparr>interrupt := None\<rparr>\<rparr>)
            else (Inl (SimError (''Unimplemented interrupt condition '' @ tag)), s)
        | None \<Rightarrow>
            if reg_pc s \<in> set (breakpoints s) then
              (if last_break s = None \<or> Some (reg_pc s) \<noteq> last_break s then
                 (Inr (), s\<lparr>halted := True, last_break := Some (reg_pc s)\<rparr>)
               else fetch_execute (s\<lparr>last_break := None\<rparr>))
            else fetch_execute s))"

section \<open>Notions used to state the properties\<close>

text \<open>
  A memory cell of a bus: an address in range whose read is served from \<^verbatim>\<open>mem\<close>, that
  is, a readable address which the bus class does not treat as an I/O register.
\<close>

definition memory_cell :: "bus_state \<Rightarrow> int \<Rightarrow> bool" where
  "memory_cell b a \<longleftrightarrow>
     0 \<le> a \<and> a < 0x10000 \<and> is_readable b a \<and>
     (bus_class b = SystemBus \<longrightarrow> a \<noteq> 0xD010 \<and> a \<noteq> 0xD011 \<and> a \<noteq> 0xD012)"

text \<open>
  Binary-coded decimal as the specification describes it: each nibble of a valid byte is a
  decimal digit, \<open>bcd_value\<close> is the number the two digits denote and \<open>bcd_encode\<close> packs
  a number below 100 back into two nibbles.
\<close>

definition valid_bcd :: "int \<Rightarrow> bool" where
  "valid_bcd n \<longleftrightarrow> 0 \<le> n \<and> n div 16 \<le> 9 \<and> n mod 16 \<le> 9"

definition bcd_value :: "int \<Rightarrow> int" where
  "bcd_value n = 10 * (n div 16) + n mod 16"

definition bcd_encode :: "int \<Rightarrow> int" where
  "bcd_encode k = 16 * (k div 10) + k mod 10"


subsection \<open>Example machines\<close>

text \<open>\<^verbatim>\<open>JMP ($10FF)\<close> at \<^verbatim>\<open>$0200\<close>, the program counter already past the opcode.\<close>

definition wrap_example :: cpu_state where
  "wrap_example =
     (CPU_init (Bus_init ((\<lambda>_. 0)(0x200 := 0x6C, 0x201 := 0xFF, 0x202 := 0x10,
                                  0x10FF := 0x34, 0x1000 := 0x12, 0x1100 := 0x56)) True))
       \<lparr>reg_pc := 0x201\<rparr>"

text \<open>
  Opcode \<^verbatim>\<open>$21\<close> at \<^verbatim>\<open>$0200\<close> with operand \<^verbatim>\<open>$10\<close> and X = 4. The zero-page pointer
  at \<^verbatim>\<open>$14\<close> leads to \<^verbatim>\<open>$1234\<close>, which holds \<^verbatim>\<open>$0F\<close>; the two bytes after the opcode
  read as an absolute pointer location give \<^verbatim>\<open>$0310\<close>, where the pointer \<^verbatim>\<open>$4000\<close> is
  stored, and \<^verbatim>\<open>$4000\<close> holds \<^verbatim>\<open>$F0\<close>.
\<close>

definition and_example :: cpu_state where
  "and_example =
     (CPU_init (Bus_init ((\<lambda>_. 0)(0x200 := 0x21, 0x201 := 0x10, 0x202 := 0x03,
                                  0x14 := 0x34, 0x15 := 0x12, 0x1234 := 0x0F,
                                  0x0310 := 0x00, 0x0311 := 0x40, 0x4000 := 0xF0)) True))
       \<lparr>reg_a := 0xFF, reg_x := 4, reg_pc := 0x200, halted := False\<rparr>"

text \<open>A freshly initialised CPU (B = 0, S = \<^verbatim>\<open>$FF\<close>) whose next stack byte is \<^verbatim>\<open>$10\<close>.\<close>

definition plp_example :: cpu_state where
  "plp_example = CPU_init (Bus_init ((\<lambda>_. 0)(0x100 := 0x10)) True)"

text \<open>Decimal mode, carry clear, the operand \<^verbatim>\<open>$01\<close> at \<^verbatim>\<open>$10\<close>; A is \<^verbatim>\<open>$79\<close>, \<^verbatim>\<open>$09\<close>, \<^verbatim>\<open>$99\<close>.\<close>

definition adc_example :: cpu_state where
  "adc_example =
     (CPU_init (Bus_init ((\<lambda>_. 0)(0x10 := 0x01)) True))\<lparr>reg_a := 0x79, flag_d := 1\<rparr>"

definition adc_example_09 :: cpu_state where
  "adc_example_09 =
     (CPU_init (Bus_init ((\<lambda>_. 0)(0x10 := 0x01)) True))\<lparr>reg_a := 0x09, flag_d := 1\<rparr>"

definition adc_example_99 :: cpu_state where
  "adc_example_99 =
     (CPU_init (Bus_init ((\<lambda>_. 0)(0x10 := 0x01)) True))\<lparr>reg_a := 0x99, flag_d := 1\<rparr>"

text \<open>
  An Apple 1 whose reset vector holds \<^verbatim>\<open>$FF00\<close>, running, with a reset, a halt or an
  unknown request pending on the bus.
\<close>

definition apple1_pending :: "string \<Rightarrow> cpu_state" where
  "apple1_pending tag =
     (CPU_init ((SystemBus_init ((\<lambda>_. 0)(0xFFFC := 0x00, 0xFFFD := 0xFF)) True)
                  \<lparr>interrupt := Some tag\<rparr>))
       \<lparr>reg_pc := 0x0200, halted := False\<rparr>"


section \<open>Hexadecimal formatting and masks\<close>


lemma hex_digit_value_hex_digit: "d < 16 \<Longrightarrow> hex_digit_value (hex_digit d) = d"
proof -
  assume "d < 16"
  then have "d = 0 \<or> d = 1 \<or> d = 2 \<or> d = 3 \<or> d = 4 \<or> d = 5 \<or> d = 6 \<or> d = 7
    \<or> d = 8 \<or> d = 9 \<or> d = 10 \<or> d = 11 \<or> d = 12 \<or> d = 13 \<or> d = 14 \<or> d = 15"
    by presburger
  then show ?thesis
    by (elim disjE) (simp_all add: hex_digit_def hex_digit_value_def)
qed

lemma hex_value_snoc: "hex_value (ds @ [ch]) = 16 * hex_value ds + hex_digit_value ch"
  by (simp add: hex_value_def)

lemma hex_value_hex_digits: "hex_value (hex_digits n) = n"
proof (induction n rule: hex_digits.induct)
  case (1 n)
  show ?case
  proof (cases "n < 16")
    case True
    then show ?thesis
      using hex_value_snoc [of "[]" "hex_digit n"]
      by (simp add: hex_digits.simps [of n] hex_digit_value_hex_digit hex_value_def)
  next
    case False
    then have "hex_value (hex_digits (n div 16)) = n div 16"
      using 1 by simp
    then show ?thesis
      using False by (simp add: hex_digits.simps [of n] hex_value_snoc hex_digit_value_hex_digit)
  qed
qed

lemma length_hex_digits: "0 < k \<Longrightarrow> n < 16 ^ k \<Longrightarrow> length (hex_digits n) \<le> k"
proof (induction n arbitrary: k rule: hex_digits.induct)
  case (1 n)
  show ?case
  proof (cases "n < 16")
    case True
    then show ?thesis using 1(2) by (simp add: hex_digits.simps [of n])
  next
    case False
    obtain j where k: "k = Suc j" using 1(2) by (cases k) auto
    have "j \<noteq> 0" using False 1(3) k by (cases j) auto
    moreover have "n div 16 < 16 ^ j" using 1(3) k by (simp add: less_mult_imp_div_less mult.commute)
    ultimately have "length (hex_digits (n div 16)) \<le> j"
      using 1(1) [of j] False by simp
    then show ?thesis using False k by (simp add: hex_digits.simps [of n])
  qed
qed

lemma hex_value_zero_pad: "hex_value (zero_pad w ds) = hex_value ds"
proof -
  have "foldl (\<lambda>acc ch. 16 * acc + hex_digit_value ch) 0 (replicate k CHR ''0'') = 0" for k
    by (induction k) (simp_all add: hex_digit_value_def)
  then show ?thesis by (simp add: zero_pad_def hex_value_def)
qed

lemma length_zero_pad: "length ds \<le> w \<Longrightarrow> length (zero_pad w ds) = w"
  by (simp add: zero_pad_def)

lemma format_hex_names:
  assumes "0 \<le> a" "a < 16 ^ w" "0 < w"
  shows "length (format_hex w a) = w \<and> hex_value (format_hex w a) = nat a"
proof -
  have "nat a < 16 ^ w" using assms by (simp add: nat_less_iff)
  then have "length (hex_digits (nat a)) \<le> w" using assms(3) by (rule length_hex_digits [rotated])
  then show ?thesis using assms(1) by (simp add: format_hex_def length_zero_pad hex_value_zero_pad hex_value_hex_digits)
qed

lemma mask16_idem: "(a::int) AND 0xFFFF AND 0xFFFF = a AND 0xFFFF"
  by simp

lemma mask8_idem: "(a::int) AND 0xFF AND 0xFF = a AND 0xFF"
  by simp

lemma mask16_range: "0 \<le> (a::int) AND 0xFFFF \<and> a AND 0xFFFF < 0x10000"
proof -
  have "a AND 0xFFFF = take_bit 16 a" by (simp add: take_bit_eq_mask mask_eq_exp_minus_1)
  then show ?thesis using take_bit_int_less_exp [of 16 a] by simp
qed

section \<open>Properties of the bus\<close>


text \<open>
  Claim C6. For every address \<open>a\<close> and value \<open>v\<close> (any integers) the generic bus masks
  the address to 16 bits and the value to 8 bits before anything else: a read at \<open>a\<close> is
  the read at \<open>a AND 0xFFFF\<close>, a write of \<open>v\<close> at \<open>a\<close> is the write of \<open>v AND 0xFF\<close> at
  \<open>a AND 0xFFFF\<close>, and a write that goes through (the masked address is writeable)
  returns normally and leaves \<open>v AND 0xFF\<close> in the cell.
\<close>

theorem bus_masks_before_checks:
  "Bus_read b a = Bus_read b (a AND 0xFFFF) \<and>
   Bus_write b a v = Bus_write b (a AND 0xFFFF) (v AND 0xFF) \<and>
   (is_writeable b (a AND 0xFFFF) \<longrightarrow>
      fst (Bus_write b a v) = Inr () \<and>
      mem (snd (Bus_write b a v)) (a AND 0xFFFF) = v AND 0xFF)"
  by (simp add: Bus_read_def Bus_write_def)

theorem bus_masks_before_checks_witness:
  "is_writeable (Bus_init (\<lambda>_. 0) True) (0x12345 AND 0xFFFF) \<and>
   fst (Bus_write (Bus_init (\<lambda>_. 0) True) 0x12345 0x1FF) = Inr () \<and>
   mem (snd (Bus_write (Bus_init (\<lambda>_. 0) True) 0x12345 0x1FF)) 0x2345 = 0xFF"
  using bus_masks_before_checks [of "Bus_init (\<lambda>_. 0) True" "0x12345" "0x1FF"]
  by (simp add: Bus_init_def Bus_write_def Bus_read_def)

text \<open>
  Claim C7. For every masked address \<open>a\<close>: reading an unreadable \<open>a\<close> raises the
  simulator error when \<^verbatim>\<open>throw_memory_errors\<close> is on, with a message that ends in the
  four hexadecimal digits of \<open>a\<close>, and returns 0 when it is off; writing an unwriteable
  \<open>a\<close> raises the simulator error when the flag is on and returns normally when it is
  off, and in both cases memory (indeed the whole bus) is as before.
\<close>

theorem unreadable_unwriteable_access:
  assumes "0 \<le> a" and "a < 0x10000"
  shows
   "(\<not> is_readable b a \<longrightarrow>
       (throw_memory_errors b \<longrightarrow>
          Bus_read b a =
            (Inl (SimError (''Attempt to read from unreadable address $'' @ format_hex 4 a)), b) \<and>
          length (format_hex 4 a) = 4 \<and> int (hex_value (format_hex 4 a)) = a) \<and>
       (\<not> throw_memory_errors b \<longrightarrow> Bus_read b a = (Inr 0, b))) \<and>
    (\<not> is_writeable b a \<longrightarrow>
       (throw_memory_errors b \<longrightarrow>
          Bus_write b a v =
            (Inl (SimError (''Attempt to write value $'' @ format_hex 2 (v AND 0xFF) @
                            '' to unwriteable address $'' @ format_hex 4 a)), b)) \<and>
       (\<not> throw_memory_errors b \<longrightarrow> Bus_write b a v = (Inr (), b)) \<and>
       mem (snd (Bus_write b a v)) = mem b)"
proof -
  have m: "a AND 0xFFFF = a"
  proof -
    have "a AND 0xFFFF = take_bit 16 a" by (simp add: take_bit_eq_mask mask_eq_exp_minus_1)
    also have "\<dots> = a" using assms by (simp add: take_bit_int_eq_self)
    finally show ?thesis .
  qed
  have f: "length (format_hex 4 a) = 4 \<and> hex_value (format_hex 4 a) = nat a"
    using assms by (intro format_hex_names) simp_all
  show ?thesis
    using f assms(1) by (simp add: Bus_read_def Bus_write_def m)
qed

theorem unreadable_unwriteable_access_witness:
  "(0::int) \<le> 0x9000 \<and> (0x9000::int) < 0x10000 \<and>
   \<not> is_readable (SystemBus_init (\<lambda>_. 0) True) 0x9000 \<and>
   \<not> is_writeable (SystemBus_init (\<lambda>_. 0) True) 0x9000 \<and>
   throw_memory_errors (SystemBus_init (\<lambda>_. 0) True) \<and>
   \<not> throw_memory_errors (SystemBus_init (\<lambda>_. 0) False) \<and>
   Bus_read (SystemBus_init (\<lambda>_. 0) True) 0x9000 =
     (Inl (SimError ''Attempt to read from unreadable address $9000''), SystemBus_init (\<lambda>_. 0) True) \<and>
   Bus_write (SystemBus_init (\<lambda>_. 0) True) 0x9000 0x41 =
     (Inl (SimError ''Attempt to write value $41 to unwriteable address $9000''),
      SystemBus_init (\<lambda>_. 0) True) \<and>
   Bus_read (SystemBus_init (\<lambda>_. 0) False) 0x9000 = (Inr 0, SystemBus_init (\<lambda>_. 0) False) \<and>
   Bus_write (SystemBus_init (\<lambda>_. 0) False) 0x9000 0x41 = (Inr (), SystemBus_init (\<lambda>_. 0) False)"
proof -
  have fm: "format_hex 4 0x9000 = ''9000''" "format_hex 2 0x41 = ''41''"
    by (simp_all add: format_hex_def zero_pad_def hex_digits.simps hex_digit_def)
  show ?thesis
    using unreadable_unwriteable_access [of "0x9000" "SystemBus_init (\<lambda>_. 0) True" "0x41"]
          unreadable_unwriteable_access [of "0x9000" "SystemBus_init (\<lambda>_. 0) False" "0x41"]
    by (simp add: SystemBus_init_def Bus_init_def fm)
qed

text \<open>
  Claim C9. The write method of the Apple 1 bus handles \<^verbatim>\<open>$D012\<close>, \<^verbatim>\<open>$D011\<close> and
  \<^verbatim>\<open>$D013\<close> itself and hands every other address to the base bus. The constructor marks
  \<^verbatim>\<open>$D010\<close> non-writeable, so a write of any value there raises the simulator memory
  error when memory errors are on and is dropped when they are off; either way the bus,
  keyboard latch and memory included, is unchanged.
\<close>

theorem kbd_register_write_falls_through:
  "\<not> is_writeable (SystemBus_init contents throw) 0xD010 \<and>
   (a AND 0xFFFF \<notin> {0xD011, 0xD012, 0xD013} \<longrightarrow> SystemBus_write b a v = Bus_write b a v) \<and>
   (a AND 0xFFFF = 0xD010 \<longrightarrow> \<not> is_writeable b 0xD010 \<longrightarrow>
      SystemBus_write b a v =
        ((if throw_memory_errors b
          then Inl (SimError (''Attempt to write value $'' @ format_hex 2 (v AND 0xFF) @
                              '' to unwriteable address $D010''))
          else Inr ()), b))"
proof -
  have fm: "format_hex 4 0xD010 = ''D010''"
    by (simp add: format_hex_def zero_pad_def hex_digits.simps hex_digit_def)
  show ?thesis
    by (simp add: SystemBus_init_def Bus_init_def SystemBus_write_def Bus_write_def fm)
qed

theorem kbd_register_write_falls_through_witness:
  "(0xD010::int) AND 0xFFFF \<notin> {0xD011, 0xD012, 0xD013} \<and>
   (0xD010::int) AND 0xFFFF = 0xD010 \<and>
   \<not> is_writeable (SystemBus_init (\<lambda>_. 0) True) 0xD010 \<and>
   SystemBus_write ((SystemBus_init (\<lambda>_. 0) True)\<lparr>kbd := 0xC1\<rparr>) 0xD010 0x41 =
     (Inl (SimError ''Attempt to write value $41 to unwriteable address $D010''),
      (SystemBus_init (\<lambda>_. 0) True)\<lparr>kbd := 0xC1\<rparr>) \<and>
   SystemBus_write ((SystemBus_init (\<lambda>_. 0) False)\<lparr>kbd := 0xC1\<rparr>) 0xD010 0x41 =
     (Inr (), (SystemBus_init (\<lambda>_. 0) False)\<lparr>kbd := 0xC1\<rparr>)"
proof -
  have fm: "format_hex 2 0x41 = ''41''"
    by (simp add: format_hex_def zero_pad_def hex_digits.simps hex_digit_def)
  show ?thesis
    using kbd_register_write_falls_through
            [of "\<lambda>_. 0" True "0xD010" "(SystemBus_init (\<lambda>_. 0) True)\<lparr>kbd := 0xC1\<rparr>" "0x41"]
          kbd_register_write_falls_through
            [of "\<lambda>_. 0" False "0xD010" "(SystemBus_init (\<lambda>_. 0) False)\<lparr>kbd := 0xC1\<rparr>" "0x41"]
    by (simp add: SystemBus_init_def Bus_init_def SystemBus_write_def Bus_write_def fm)
qed

section \<open>Reading memory through the bus\<close>

lemma mask16_self: "0 \<le> a \<Longrightarrow> a < 0x10000 \<Longrightarrow> (a::int) AND 0xFFFF = a"
proof -
  assume a: "0 \<le> a" "a < 0x10000"
  have "a AND 0xFFFF = take_bit 16 a" by (simp add: take_bit_eq_mask mask_eq_exp_minus_1)
  also have "\<dots> = a" using a by (simp add: take_bit_int_eq_self)
  finally show ?thesis .
qed

lemma mask8_mod: "(x::int) AND 0xFF = x mod 256"
proof -
  have "x AND 0xFF = take_bit 8 x" by (simp add: take_bit_eq_mask mask_eq_exp_minus_1)
  then show ?thesis by (simp add: take_bit_eq_mod)
qed

lemma mask4_mod: "(x::int) AND 0x0F = x mod 16"
proof -
  have "x AND 0x0F = take_bit 4 x" by (simp add: take_bit_eq_mask mask_eq_exp_minus_1)
  then show ?thesis by (simp add: take_bit_eq_mod)
qed

lemma bus_read_memory_cell: "memory_cell b a \<Longrightarrow> bus_read b a = (Inr (mem b a), b)"
  by (cases "bus_class b")
     (simp_all add: memory_cell_def bus_read_def Bus_read_def SystemBus_read_def mask16_self)

lemma self_bus_read_memory_cell:
  "memory_cell (bus s) a \<Longrightarrow> self_bus_read a s = (Inr (mem (bus s) a), s)"
  by (simp add: self_bus_read_def bus_read_memory_cell)

section \<open>Properties of the CPU\<close>

subsection \<open>Pulling the status register\<close>

text \<open>
  Claim C1 as stated fails. The claim says that PLP leaves the B flag as it was. On a
  freshly initialised CPU (B = 0) whose next stack byte is \<^verbatim>\<open>$10\<close>, PLP pulls
  \<^verbatim>\<open>$10\<close> and B becomes 1.
\<close>

theorem plp_keeps_b_counterexample:
  "pull plp_example = (Inr 0x10, plp_example\<lparr>reg_s := 0\<rparr>) \<and>
   fst (plp plp_example) = Inr () \<and>
   flag_b plp_example = 0 \<and>
   flag_b (snd (plp plp_example)) = 1 \<and>
   \<not> (flag_b (snd (plp plp_example)) = flag_b plp_example)"
  by (simp add: plp_example_def plp_def pull_def bind_m_def update_def set_status_register_def
        self_bus_read_def bus_read_def Bus_read_def CPU_init_def Bus_init_def Let_def)

lemma test_bit: "((p::int) AND 2 ^ n \<noteq> 0) = bit p n"
  by (simp add: and_exp_eq_0_iff_not_bit)

lemma set_status_register_bits:
  "set_status_register p s =
     s\<lparr>flag_n := of_bool (bit p 7), flag_v := of_bool (bit p 6), flag_b := of_bool (bit p 4),
       flag_d := of_bool (bit p 3), flag_i := of_bool (bit p 2), flag_z := of_bool (bit p 1),
       flag_c := of_bool (bit p 0)\<rparr>"
  using test_bit [of p 7] test_bit [of p 6] test_bit [of p 4] test_bit [of p 3]
        test_bit [of p 2] test_bit [of p 1] test_bit [of p 0]
  by (simp add: set_status_register_def)

text \<open>
  Claim C1, amended. For every byte \<open>p\<close> that the pull returns, PLP sets N, V, D, I, Z and
  C to bits 7, 6, 3, 2, 1 and 0 of \<open>p\<close> and sets B to bit 4 of \<open>p\<close>; only bit 5 is
  ignored, and nothing else changes beyond what the pull did. RTI starts with the same
  PLP and then pulls the return address from the state PLP left.
\<close>

theorem plp_sets_all_seven_flags:
  assumes "pull s = (Inr p, s1)"
  shows "plp s =
           (Inr (), s1\<lparr>flag_n := of_bool (bit p 7), flag_v := of_bool (bit p 6),
                        flag_b := of_bool (bit p 4), flag_d := of_bool (bit p 3),
                        flag_i := of_bool (bit p 2), flag_z := of_bool (bit p 1),
                        flag_c := of_bool (bit p 0)\<rparr>) \<and>
         rti s =
           bind_m pull (\<lambda>lsb. bind_m pull (\<lambda>msb. update (\<lambda>s. s\<lparr>reg_pc := msb * 0x100 + lsb\<rparr>)))
             (s1\<lparr>flag_n := of_bool (bit p 7), flag_v := of_bool (bit p 6),
                 flag_b := of_bool (bit p 4), flag_d := of_bool (bit p 3),
                 flag_i := of_bool (bit p 2), flag_z := of_bool (bit p 1),
                 flag_c := of_bool (bit p 0)\<rparr>)"
  using assms by (simp add: rti_def plp_def bind_m_def update_def set_status_register_bits)

theorem plp_sets_all_seven_flags_witness:
  "pull plp_example = (Inr 0x10, plp_example\<lparr>reg_s := 0\<rparr>) \<and>
   plp plp_example = (Inr (), plp_example\<lparr>reg_s := 0, flag_b := 1\<rparr>)"
proof -
  have p: "pull plp_example = (Inr 0x10, plp_example\<lparr>reg_s := 0\<rparr>)"
    by (simp add: plp_example_def pull_def self_bus_read_def bus_read_def Bus_read_def
          CPU_init_def Bus_init_def Let_def)
  show ?thesis
    using plp_sets_all_seven_flags [OF p] p
    by (simp add: plp_example_def CPU_init_def bit_numeral_simps)
qed

subsection \<open>Decimal addition\<close>

lemma bcd2bin_value: "bcd2bin n = bcd_value n"
  by (simp add: bcd2bin_def bcd_value_def mask4_mod)

lemma bin2bcd_encode: "0 \<le> k \<Longrightarrow> k \<le> 99 \<Longrightarrow> bin2bcd k = bcd_encode k"
proof -
  assume k: "0 \<le> k" "k \<le> 99"
  have "k div 10 \<le> 9" using k by simp
  moreover have "0 \<le> k div 10" using k by simp
  moreover have "0 \<le> k mod 10" "k mod 10 \<le> 9" by simp_all
  ultimately have "0 \<le> k div 10 * 16 + k mod 10" "k div 10 * 16 + k mod 10 < 256" by linarith+
  then show ?thesis by (simp add: bin2bcd_def bcd_encode_def mask8_mod)
qed

lemma bcd_value_range: "valid_bcd n \<Longrightarrow> 0 \<le> bcd_value n \<and> bcd_value n \<le> 99"
proof -
  assume v: "valid_bcd n"
  have "0 \<le> n div 16" using v by (simp add: valid_bcd_def pos_imp_zdiv_nonneg_iff)
  moreover have "0 \<le> n mod 16" by simp
  ultimately show ?thesis using v by (simp add: valid_bcd_def bcd_value_def)
qed

lemma bcd_encode_zero: "0 \<le> k \<Longrightarrow> k \<le> 99 \<Longrightarrow> bcd_encode k = 0 \<longleftrightarrow> k = 0"
proof -
  assume k: "0 \<le> k" "k \<le> 99"
  have d: "0 \<le> k div 10" using k by simp
  have m: "0 \<le> k mod 10" by simp
  show ?thesis
  proof
    assume "bcd_encode k = 0"
    then have "k div 10 = 0 \<and> k mod 10 = 0" using d m unfolding bcd_encode_def by linarith
    then show "k = 0" using div_mult_mod_eq [of k 10] by simp
  qed (simp add: bcd_encode_def)
qed

lemmas adc_eval =
  adc_def bind_m_def update_def self_bus_read_def bus_read_def Bus_read_def
  CPU_init_def Bus_init_def Let_def bcd2bin_def bin2bcd_def set_nz_def

text \<open>
  Claim C2 as stated fails. The claim says that in decimal mode N is bit 7 of the
  BCD-encoded result. With D = 1, C = 0, A = \<^verbatim>\<open>$79\<close> and operand \<^verbatim>\<open>$01\<close>, both valid
  BCD, ADC stores \<^verbatim>\<open>$80\<close> in A, whose bit 7 is set, and leaves N = 0.
\<close>

theorem adc_decimal_n_flag_counterexample:
  "flag_d adc_example \<noteq> 0 \<and> flag_c adc_example = 0 \<and>
   valid_bcd (reg_a adc_example) \<and> valid_bcd (mem (bus adc_example) 0x10) \<and>
   reg_a adc_example = 0x79 \<and> mem (bus adc_example) 0x10 = 0x01 \<and>
   fst (adc 0x10 adc_example) = Inr () \<and>
   reg_a (snd (adc 0x10 adc_example)) = 0x80 \<and>
   flag_n (snd (adc 0x10 adc_example)) = 0 \<and>
   \<not> (flag_n (snd (adc 0x10 adc_example)) = of_bool (bit (reg_a (snd (adc 0x10 adc_example))) 7))"
  by (simp add: adc_example_def valid_bcd_def adc_eval)

text \<open>
  Claim C2, amended. With D set, C being 0 or 1, and A and the operand M (a memory cell)
  valid BCD bytes, ADC computes \<open>r = bcd(A) + bcd(M) + C\<close>, stores the BCD encoding of
  \<open>r mod 100\<close> in A, sets C to 1 exactly when \<open>r \<ge> 100\<close>, sets Z to 1 exactly when the
  byte stored in A is 0, and clears N (N and Z are taken from the binary value
  \<open>r mod 100\<close>, which never reaches 128). In particular \<^verbatim>\<open>$09 + $01\<close> gives A =
  \<^verbatim>\<open>$10\<close>, C = 0 and \<^verbatim>\<open>$99 + $01\<close> gives A = \<^verbatim>\<open>$00\<close>, C = 1.
\<close>

theorem adc_decimal_mode:
  assumes "flag_d s \<noteq> 0"
    and "flag_c s = 0 \<or> flag_c s = 1"
    and "valid_bcd (reg_a s)"
    and "valid_bcd m"
    and "memory_cell (bus s) address"
    and "mem (bus s) address = m"
  shows
   "fst (adc address s) = Inr () \<and>
    reg_a (snd (adc address s)) = bcd_encode ((bcd_value (reg_a s) + bcd_value m + flag_c s) mod 100) \<and>
    flag_c (snd (adc address s)) = (if bcd_value (reg_a s) + bcd_value m + flag_c s \<ge> 100 then 1 else 0) \<and>
    flag_z (snd (adc address s)) = (if reg_a (snd (adc address s)) = 0 then 1 else 0) \<and>
    flag_n (snd (adc address s)) = 0"
proof -
  define r where "r = bcd_value (reg_a s) + bcd_value m + flag_c s"
  have r: "0 \<le> r" "r \<le> 199"
    using bcd_value_range [OF assms(3)] bcd_value_range [OF assms(4)] assms(2)
    by (auto simp add: r_def)
  have rd: "self_bus_read address s = (Inr m, s)"
    using assms(5,6) by (simp add: self_bus_read_memory_cell)
  show ?thesis
  proof (cases "r \<ge> 100")
    case True
    then have k: "0 \<le> r - 100" "r - 100 \<le> 99" "r mod 100 = r - 100"
      using r by presburger+
    show ?thesis
      using True assms(1) k bcd_encode_zero [OF k(1,2)]
      by (simp add: adc_def bind_m_def update_def rd bcd2bin_value set_nz_def Let_def
            bin2bcd_encode flip: r_def)
  next
    case False
    then have k: "0 \<le> r" "r \<le> 99" "r mod 100 = r"
      using r by presburger+
    show ?thesis
      using False assms(1) k bcd_encode_zero [OF k(1,2)]
      by (simp add: adc_def bind_m_def update_def rd bcd2bin_value set_nz_def Let_def
            bin2bcd_encode flip: r_def)
  qed
qed

theorem adc_decimal_mode_witness:
  "flag_d adc_example_09 \<noteq> 0 \<and> flag_c adc_example_09 = 0 \<and>
   valid_bcd (reg_a adc_example_09) \<and> valid_bcd 0x01 \<and>
   memory_cell (bus adc_example_09) 0x10 \<and> mem (bus adc_example_09) 0x10 = 0x01 \<and>
   reg_a (snd (adc 0x10 adc_example_09)) = 0x10 \<and> flag_c (snd (adc 0x10 adc_example_09)) = 0 \<and>
   flag_d adc_example_99 \<noteq> 0 \<and> flag_c adc_example_99 = 0 \<and>
   valid_bcd (reg_a adc_example_99) \<and>
   memory_cell (bus adc_example_99) 0x10 \<and> mem (bus adc_example_99) 0x10 = 0x01 \<and>
   reg_a (snd (adc 0x10 adc_example_99)) = 0x00 \<and> flag_c (snd (adc 0x10 adc_example_99)) = 1 \<and>
   flag_z (snd (adc 0x10 adc_example_99)) = 1 \<and> flag_n (snd (adc 0x10 adc_example_99)) = 0"
proof -
  have h9: "flag_d adc_example_09 \<noteq> 0" "flag_c adc_example_09 = 0 \<or> flag_c adc_example_09 = 1"
    "valid_bcd (reg_a adc_example_09)" "valid_bcd 0x01"
    "memory_cell (bus adc_example_09) 0x10" "mem (bus adc_example_09) 0x10 = 0x01"
    by (simp_all add: adc_example_09_def CPU_init_def Bus_init_def valid_bcd_def memory_cell_def)
  have h99: "flag_d adc_example_99 \<noteq> 0" "flag_c adc_example_99 = 0 \<or> flag_c adc_example_99 = 1"
    "valid_bcd (reg_a adc_example_99)" "valid_bcd 0x01"
    "memory_cell (bus adc_example_99) 0x10" "mem (bus adc_example_99) 0x10 = 0x01"
    by (simp_all add: adc_example_99_def CPU_init_def Bus_init_def valid_bcd_def memory_cell_def)
  have v9: "reg_a adc_example_09 = 0x09" "flag_c adc_example_09 = 0"
    by (simp_all add: adc_example_09_def CPU_init_def)
  have v99: "reg_a adc_example_99 = 0x99" "flag_c adc_example_99 = 0"
    by (simp_all add: adc_example_99_def CPU_init_def)
  show ?thesis
    using adc_decimal_mode [OF h9] adc_decimal_mode [OF h99] h9 h99
    by (simp add: v9 v99 bcd_value_def bcd_encode_def)
qed

subsection \<open>The indirect resolver\<close>

text \<open>
  Claim C3. The resolver that the dictionary gives JMP (\<^verbatim>\<open>$6C\<close>) is \<^verbatim>\<open>indirect\<close>.
  Let the two operand bytes at PC give the pointer location: low byte \<open>lo\<close>,
  page \<open>page\<close>. When \<open>lo\<close> is \<^verbatim>\<open>$FF\<close> the resolver takes the low byte of the target
  from \<^verbatim>\<open>$xxFF\<close> and the high byte from \<^verbatim>\<open>$xx00\<close> of the same page; otherwise the high
  byte comes from the next address. PC has moved past both operand bytes. (All cells read
  are memory cells holding bytes.) The concrete case is \<^verbatim>\<open>JMP ($10FF)\<close>, whose high byte
  comes from \<^verbatim>\<open>$1000\<close>, not \<^verbatim>\<open>$1100\<close>.
\<close>

theorem indirect_page_wrap:
  assumes "memory_cell (bus s) (reg_pc s)"
    and "memory_cell (bus s) ((reg_pc s + 1) AND 0xFFFF)"
    and "mem (bus s) (reg_pc s) = lo"
    and "mem (bus s) ((reg_pc s + 1) AND 0xFFFF) = page"
    and "0 \<le> lo" and "lo \<le> 0xFF" and "0 \<le> page" and "page \<le> 0xFF"
  shows
   "map_of opcodes ''6C'' = Some (Listed (addressed jmp) am_indirect) \<and>
    (lo = 0xFF \<longrightarrow>
       memory_cell (bus s) (page * 0x100 + 0xFF) \<longrightarrow> memory_cell (bus s) (page * 0x100) \<longrightarrow>
       indirect s =
         (Inr (mem (bus s) (page * 0x100) * 0x100 + mem (bus s) (page * 0x100 + 0xFF)),
          s\<lparr>reg_pc := (((reg_pc s + 1) AND 0xFFFF) + 1) AND 0xFFFF\<rparr>)) \<and>
    (lo \<noteq> 0xFF \<longrightarrow>
       memory_cell (bus s) (page * 0x100 + lo) \<longrightarrow> memory_cell (bus s) (page * 0x100 + lo + 1) \<longrightarrow>
       indirect s =
         (Inr (mem (bus s) (page * 0x100 + lo + 1) * 0x100 + mem (bus s) (page * 0x100 + lo)),
          s\<lparr>reg_pc := (((reg_pc s + 1) AND 0xFFFF) + 1) AND 0xFFFF\<rparr>))"
proof -
  have low: "(lo + page * 0x100) AND 0xFF = lo"
    using assms(5,6) by (simp add: mask8_mod)
  have lowFF: "(0xFF + page * 0x100) AND 0xFF = (0xFF::int)"
    by (simp add: mask8_mod)
  have operand:
    "bind_m read_at_pc (\<lambda>l. bind_m (update inc_pc) (\<lambda>_. bind_m read_at_pc (\<lambda>h.
       bind_m (update inc_pc) (\<lambda>_. k l h)))) s =
     k lo page (s\<lparr>reg_pc := (((reg_pc s + 1) AND 0xFFFF) + 1) AND 0xFFFF\<rparr>)" for k :: "int \<Rightarrow> int \<Rightarrow> int cpu_m"
    using assms(1-4)
    by (simp add: bind_m_def read_at_pc_def update_def inc_pc_def self_bus_read_memory_cell)
  have entry: "map_of opcodes ''6C'' = Some (Listed (addressed jmp) am_indirect)"
    by (simp add: opcodes_def)
  show ?thesis
    unfolding indirect_def operand
    by (simp add: entry Let_def low lowFF bind_m_def return_m_def self_bus_read_memory_cell
          add.commute)
qed

theorem indirect_page_wrap_witness:
  "memory_cell (bus wrap_example) (reg_pc wrap_example) \<and>
   memory_cell (bus wrap_example) ((reg_pc wrap_example + 1) AND 0xFFFF) \<and>
   mem (bus wrap_example) (reg_pc wrap_example) = 0xFF \<and>
   mem (bus wrap_example) ((reg_pc wrap_example + 1) AND 0xFFFF) = 0x10 \<and>
   memory_cell (bus wrap_example) 0x10FF \<and> memory_cell (bus wrap_example) 0x1000 \<and>
   mem (bus wrap_example) 0x1000 = 0x12 \<and> mem (bus wrap_example) 0x1100 = 0x56 \<and>
   indirect wrap_example = (Inr 0x1234, wrap_example\<lparr>reg_pc := 0x203\<rparr>)"
  using indirect_page_wrap [of wrap_example "0xFF" "0x10"]
  by (simp add: wrap_example_def CPU_init_def Bus_init_def memory_cell_def)

subsection \<open>Pending interrupts\<close>

text \<open>
  Claim C5. On a CPU that is not halted, a pending request is resolved before anything is
  fetched and no instruction runs in that call. For \<^verbatim>\<open>RES\<close> (the reset vector cells
  \<^verbatim>\<open>$FFFC\<close> and \<^verbatim>\<open>$FFFD\<close> being memory cells, as they are on every bus the
  constructors build) the step returns normally with I = 1, PC the little-endian word at
  \<^verbatim>\<open>$FFFC\<close> and the slot empty; for \<^verbatim>\<open>HLT\<close> it returns with the CPU halted and the
  slot empty. Nothing else changes: A, X, Y, S and memory are as before.
\<close>

theorem pending_interrupt_resolved_before_fetch:
  assumes "\<not> halted s"
  shows
   "(interrupt (bus s) = Some ''RES'' \<longrightarrow>
       memory_cell (bus s) 0xFFFC \<longrightarrow> memory_cell (bus s) 0xFFFD \<longrightarrow>
       step s = (Inr (), s\<lparr>reg_pc := mem (bus s) 0xFFFC + mem (bus s) 0xFFFD * 0x100,
                            flag_i := 1,
                            bus := (bus s)\<lparr>interrupt := None\<rparr>\<rparr>)) \<and>
    (interrupt (bus s) = Some ''HLT'' \<longrightarrow>
       step s = (Inr (), s\<lparr>halted := True, bus := (bus s)\<lparr>interrupt := None\<rparr>\<rparr>))"
  using assms
  by (simp add: step_def reset_def sei_and_set_pc_def sei_def bind_m_def update_def
                self_bus_read_memory_cell)

theorem pending_interrupt_resolved_before_fetch_witness:
  "\<not> halted (apple1_pending ''RES'') \<and> interrupt (bus (apple1_pending ''RES'')) = Some ''RES'' \<and>
   memory_cell (bus (apple1_pending ''RES'')) 0xFFFC \<and>
   memory_cell (bus (apple1_pending ''RES'')) 0xFFFD \<and>
   fst (step (apple1_pending ''RES'')) = Inr () \<and>
   reg_pc (snd (step (apple1_pending ''RES''))) = 0xFF00 \<and>
   flag_i (snd (step (apple1_pending ''RES''))) = 1 \<and>
   interrupt (bus (snd (step (apple1_pending ''RES'')))) = None \<and>
   \<not> halted (apple1_pending ''HLT'') \<and> interrupt (bus (apple1_pending ''HLT'')) = Some ''HLT'' \<and>
   fst (step (apple1_pending ''HLT'')) = Inr () \<and>
   halted (snd (step (apple1_pending ''HLT''))) \<and>
   reg_pc (snd (step (apple1_pending ''HLT''))) = 0x0200 \<and>
   interrupt (bus (snd (step (apple1_pending ''HLT'')))) = None"
proof -
  have r: "\<not> halted (apple1_pending ''RES'')" and h: "\<not> halted (apple1_pending ''HLT'')"
    by (simp_all add: apple1_pending_def)
  show ?thesis
    using pending_interrupt_resolved_before_fetch [OF r]
          pending_interrupt_resolved_before_fetch [OF h]
    by (simp add: apple1_pending_def CPU_init_def SystemBus_init_def Bus_init_def memory_cell_def)
qed

text \<open>
  Claim C10. On a CPU that is not halted, a pending request other than \<^verbatim>\<open>RES\<close> and
  \<^verbatim>\<open>HLT\<close> makes the step raise the unimplemented-interrupt error with the state exactly
  as it was: the slot still holds the tag, the CPU is not halted, registers and memory are
  unchanged. Hence stepping again fails in the same way.
\<close>

theorem unimplemented_interrupt_fails_and_stays:
  assumes "\<not> halted s" and "interrupt (bus s) = Some tag" and "tag \<noteq> ''RES''" and "tag \<noteq> ''HLT''"
  shows "step s = (Inl (SimError (''Unimplemented interrupt condition '' @ tag)), s) \<and>
         step (snd (step s)) = step s"
  using assms by (simp add: step_def)

theorem unimplemented_interrupt_fails_and_stays_witness:
  "\<not> halted (apple1_pending ''IRQ'') \<and>
   interrupt (bus (apple1_pending ''IRQ'')) = Some ''IRQ'' \<and>
   ''IRQ'' \<noteq> ''RES'' \<and> ''IRQ'' \<noteq> ''HLT'' \<and>
   step (apple1_pending ''IRQ'') =
     (Inl (SimError ''Unimplemented interrupt condition IRQ''), apple1_pending ''IRQ'')"
proof -
  have h: "\<not> halted (apple1_pending ''IRQ'')" "interrupt (bus (apple1_pending ''IRQ'')) = Some ''IRQ''"
    "''IRQ'' \<noteq> ''RES''" "''IRQ'' \<noteq> ''HLT''"
    by (simp_all add: apple1_pending_def CPU_init_def SystemBus_init_def Bus_init_def)
  show ?thesis
    using unimplemented_interrupt_fails_and_stays [OF h] h by simp
qed

section \<open>What a step leaves of the breakpoint bookkeeping\<close>

































































































subsection \<open>Breakpoints\<close>

lemma not_halted_update: "\<not> halted s \<Longrightarrow> s\<lparr>halted := False\<rparr> = s"
  by simp









subsection \<open>Opcode \<^verbatim>\<open>$21\<close>\<close>

text \<open>The dictionary has 151 entries and no key twice, so looking a key up in the list of
  its entries is the dictionary lookup.\<close>

lemma format_hex_2_21: "format_hex 2 0x21 = ''21''"
  by (simp add: format_hex_def zero_pad_def hex_digits.simps hex_digit_def)

lemma opcode_21_entry: "map_of opcodes ''21'' = Some (Listed (addressed aNd) am_indirect)"
  by (simp add: opcodes_def)

lemmas and_example_eval =
  and_example_def CPU_init_def Bus_init_def bind_m_def read_at_pc_def self_bus_read_def
  bus_read_def Bus_read_def inc_pc_def execute_def resolve_def update_def return_m_def
  addressed_def aNd_def set_nz_def Let_def

lemma opcodes_is_dictionary: "length opcodes = 151 \<and> distinct (map fst opcodes)"
  by (simp add: opcodes_def)

text \<open>
  Claim C8 does not hold of the code. The dictionary pairs \<^verbatim>\<open>$21\<close> with the resolver
  \<^verbatim>\<open>indirect\<close>, the absolute-indirect mode of JMP, while the seven other opcodes of the
  column (\<^verbatim>\<open>$01 $41 $61 $81 $A1 $C1 $E1\<close>) have \<^verbatim>\<open>indirect_x\<close>. On the example
  machine (operand \<^verbatim>\<open>$10\<close>, X = 4) the step consumes two operand bytes (PC ends at
  \<^verbatim>\<open>$0203\<close>) and ANDs A with the byte at \<^verbatim>\<open>$4000\<close>, giving \<^verbatim>\<open>$F0\<close>; with the
  resolver the claim describes, the same operator consumes one byte (PC \<^verbatim>\<open>$0202\<close>)
  and ANDs A with the byte at \<^verbatim>\<open>$1234\<close>, giving \<^verbatim>\<open>$0F\<close>.
\<close>

theorem opcode_21_runs_indirect:
  "map_of opcodes ''21'' = Some (Listed (addressed aNd) am_indirect) \<and>
   map_of opcodes ''01'' = Some (Listed (addressed ora) am_indirect_x) \<and>
   map_of opcodes ''41'' = Some (Listed (addressed eor) am_indirect_x) \<and>
   map_of opcodes ''61'' = Some (Listed (addressed adc) am_indirect_x) \<and>
   map_of opcodes ''81'' = Some (Listed (addressed sta) am_indirect_x) \<and>
   map_of opcodes ''A1'' = Some (Listed (addressed lda) am_indirect_x) \<and>
   map_of opcodes ''C1'' = Some (Listed (addressed cmp) am_indirect_x) \<and>
   map_of opcodes ''E1'' = Some (Listed (addressed sbc) am_indirect_x) \<and>
   fst (step and_example) = Inr () \<and>
   reg_pc (snd (step and_example)) = 0x203 \<and>
   reg_a (snd (step and_example)) = 0xF0 \<and>
   fst (execute (Listed (addressed aNd) am_indirect_x) (inc_pc and_example)) = Inr () \<and>
   reg_pc (snd (execute (Listed (addressed aNd) am_indirect_x) (inc_pc and_example))) = 0x202 \<and>
   reg_a (snd (execute (Listed (addressed aNd) am_indirect_x) (inc_pc and_example))) = 0x0F"
proof -
  have table:
    "map_of opcodes ''01'' = Some (Listed (addressed ora) am_indirect_x)"
    "map_of opcodes ''41'' = Some (Listed (addressed eor) am_indirect_x)"
    "map_of opcodes ''61'' = Some (Listed (addressed adc) am_indirect_x)"
    "map_of opcodes ''81'' = Some (Listed (addressed sta) am_indirect_x)"
    "map_of opcodes ''A1'' = Some (Listed (addressed lda) am_indirect_x)"
    "map_of opcodes ''C1'' = Some (Listed (addressed cmp) am_indirect_x)"
    "map_of opcodes ''E1'' = Some (Listed (addressed sbc) am_indirect_x)"
    by (simp_all add: opcodes_def)
  have code:
    "fst (step and_example) = Inr () \<and>
     reg_pc (snd (step and_example)) = 0x203 \<and>
     reg_a (snd (step and_example)) = 0xF0"
    by (simp add: step_def fetch_execute_def sleep_def format_hex_2_21 opcode_21_entry
          indirect_def and_example_eval)
  have documented:
    "fst (execute (Listed (addressed aNd) am_indirect_x) (inc_pc and_example)) = Inr () \<and>
     reg_pc (snd (execute (Listed (addressed aNd) am_indirect_x) (inc_pc and_example))) = 0x202 \<and>
     reg_a (snd (execute (Listed (addressed aNd) am_indirect_x) (inc_pc and_example))) = 0x0F"
    by (simp add: indirect_x_def zero_page_x_def and_example_eval)
  show ?thesis using table code documented opcode_21_entry by simp
qed

end
